theory Spec2Isabelle
  imports
    Main
    "HOL-Library.Word"
    "HOL-Library.AList"
    "HOL-Library.Char_ord"
    "HOL-Library.List_Lexorder"
begin

unbundle bit_operations_syntax

section \<open>Common types\<close>

text \<open>
  A \<open>slice\<close> is a byte string. Sequences are 64-bit in the source; the only operations the
  files at hand perform on them are comparisons, and the allocator of the physical store
  (modelled below from the specification) is strictly increasing, so they are natural
  numbers here. The document flags are a bit set.
\<close>

type_synonym slice = string
type_synonym sequence_t = nat
type_synonym DocumentFlags = "8 word"

definition kDeleted :: DocumentFlags where
  "kDeleted = 1"

datatype error =
    AssertionFailed
  | InvalidParameter
  | InvalidQueryParam
  | UnsupportedOperation
  | CorruptRevisionData
  | NullDereference
  | UndefinedShift

text \<open>
  The \<open>Assert\<close> macro is declared outside the files at hand, so what a failed assertion
  does is a parameter of the model: it raises \<open>AssertionFailed\<close>, or the check is compiled
  out and execution continues.
\<close>

datatype assert_mode = AssertThrows | AssertCompiledOut

definition Assert :: "assert_mode \<Rightarrow> bool \<Rightarrow> error + unit" where
  "Assert am e = (if \<not> e \<and> am = AssertThrows then Inl AssertionFailed else Inr ())"


section \<open>The physical key-store\<close>

record Rec =
  version :: slice
  body :: slice
  flags :: DocumentFlags
  sequence :: sequence_t

text \<open>A physical key-store holds at most one record per key: an association list.\<close>

type_synonym KeyStore = "(slice \<times> Rec) list"

text \<open>
  Modelled from the spec: \<open>KeyStore::get\<close>, \<open>KeyStore::set\<close> and \<open>KeyStore::del\<close> of the
  physical store are not in the files at hand. Section 4.1: an absent \<open>replacingSequence\<close>
  is an unconditional upsert that assigns and returns a new sequence; \<open>replacingSequence = 0\<close>
  inserts only if no record exists and returns 0 on conflict; \<open>replacingSequence > 0\<close> updates
  only if the stored sequence equals it, returns 0 on mismatch, and reuses
  \<open>replacingSequence\<close> instead of allocating when \<open>newSequence\<close> is false. \<open>del\<close> with an
  expected sequence is a compare-and-swap delete, true iff the row existed with a matching
  sequence. The sequence counter is passed in and out because the live and the dead store
  share one allocator.
\<close>

definition ks_get :: "KeyStore \<Rightarrow> slice \<Rightarrow> Rec option" where
  "ks_get st key = map_of st key"

definition ks_set ::
  "KeyStore \<Rightarrow> sequence_t \<Rightarrow> slice \<Rightarrow> slice \<Rightarrow> slice \<Rightarrow> DocumentFlags
     \<Rightarrow> sequence_t option \<Rightarrow> bool \<Rightarrow> sequence_t \<times> KeyStore \<times> sequence_t" where
  "ks_set st lseq key ver val fl replacingSequence newSequence =
     (case replacingSequence of
        None \<Rightarrow>
          (let seq = lseq + 1
           in (seq, AList.update key \<lparr>version = ver, body = val, flags = fl, sequence = seq\<rparr> st, seq))
      | Some rs \<Rightarrow>
          (case map_of st key of
             None \<Rightarrow>
               if rs = 0
               then (let seq = lseq + 1
                     in (seq, AList.update key
                               \<lparr>version = ver, body = val, flags = fl, sequence = seq\<rparr> st, seq))
               else (0, st, lseq)
           | Some r \<Rightarrow>
               if 0 < rs \<and> sequence r = rs
               then (let seq = (if newSequence then lseq + 1 else rs)
                     in (seq, AList.update key
                               \<lparr>version = ver, body = val, flags = fl, sequence = seq\<rparr> st,
                         if newSequence then seq else lseq))
               else (0, st, lseq)))"

definition ks_del :: "KeyStore \<Rightarrow> slice \<Rightarrow> sequence_t option \<Rightarrow> bool \<times> KeyStore" where
  "ks_del st key expectedSequence =
     (case map_of st key of
        None \<Rightarrow> (False, st)
      | Some r \<Rightarrow>
          (case expectedSequence of
             None \<Rightarrow> (True, AList.delete key st)
           | Some s \<Rightarrow> if sequence r = s then (True, AList.delete key st) else (False, st)))"


section \<open>BothKeyStore\<close>

text \<open>
  The live and the dead store, and the sequence counter they share
  (\<open>deadStore->shareSequencesWith(*liveStore)\<close> in the constructor).
\<close>

record BothKeyStore =
  liveStore :: KeyStore
  deadStore :: KeyStore
  lastSeq :: sequence_t

definition target_of :: "bool \<Rightarrow> BothKeyStore \<Rightarrow> KeyStore" where
  "target_of deleting bs = (if deleting then deadStore bs else liveStore bs)"

definition other_of :: "bool \<Rightarrow> BothKeyStore \<Rightarrow> KeyStore" where
  "other_of deleting bs = (if deleting then liveStore bs else deadStore bs)"

definition with_stores :: "bool \<Rightarrow> KeyStore \<Rightarrow> KeyStore \<Rightarrow> sequence_t \<Rightarrow> BothKeyStore" where
  "with_stores deleting target other lseq =
     (if deleting then \<lparr>liveStore = other, deadStore = target, lastSeq = lseq\<rparr>
      else \<lparr>liveStore = target, deadStore = other, lastSeq = lseq\<rparr>)"

text \<open>
  \<open>BothKeyStore::set\<close>. The result is the returned sequence, or the error raised, and the
  store afterwards. The calls \<open>target->set(key, version, value, flags, t)\<close> take the default
  arguments: no \<open>replacingSequence\<close>, \<open>newSequence = true\<close>.
\<close>

definition BothKeyStore_set ::
  "assert_mode \<Rightarrow> BothKeyStore \<Rightarrow> slice \<Rightarrow> slice \<Rightarrow> slice \<Rightarrow> DocumentFlags
     \<Rightarrow> sequence_t option \<Rightarrow> bool \<Rightarrow> (error + sequence_t) \<times> BothKeyStore" where
  "BothKeyStore_set am bs key ver val fl replacingSequence newSequence =
     (let deleting = (fl AND kDeleted \<noteq> 0);
          target = target_of deleting bs;
          other = other_of deleting bs
      in case replacingSequence of
           None \<Rightarrow>
             (let (seq, target', lseq') = ks_set target (lastSeq bs) key ver val fl None True;
                  other' = (if 0 < seq then snd (ks_del other key None) else other)
              in (Inr seq, with_stores deleting target' other' lseq'))
         | Some rs \<Rightarrow>
             if rs = 0 \<and> ks_get other key \<noteq> None then (Inr 0, bs)
             else
               (let (seq, target', lseq') =
                      ks_set target (lastSeq bs) key ver val fl (Some rs) newSequence
                in if seq = 0 \<and> 0 < rs
                   then (case Assert am newSequence of
                           Inl e \<Rightarrow> (Inl e, with_stores deleting target' other lseq')
                         | Inr _ \<Rightarrow>
                             (let (deleted, other') = ks_del other key (Some rs)
                              in if deleted
                                 then (let (seq2, target'', lseq'') =
                                             ks_set target' lseq' key ver val fl None True
                                       in (Inr seq2, with_stores deleting target'' other' lseq''))
                                 else (Inr seq, with_stores deleting target' other' lseq')))
                   else (Inr seq, with_stores deleting target' other lseq')))"

text \<open>
  \<open>BothKeyStore::nextExpiration\<close>; \<open>lx\<close> and \<open>dx\<close> are what the live and the dead store's
  own \<open>nextExpiration()\<close> return. The declaration of \<open>expiration_t\<close> is not in the files
  at hand: the function is modelled for any linearly ordered type with a zero, which covers
  the unsigned 64-bit integer of the specification and a signed one.
\<close>

definition nextExpiration :: "'a::{linorder, zero} \<Rightarrow> 'a \<Rightarrow> 'a" where
  "nextExpiration lx dx = (if 0 < lx \<and> 0 < dx then min lx dx else max lx dx)"

text \<open>A key is present in a store; a key is in at most one of the two sub-stores.\<close>

definition present :: "KeyStore \<Rightarrow> slice \<Rightarrow> bool" where
  "present st key = (ks_get st key \<noteq> None)"

definition at_most_one :: "BothKeyStore \<Rightarrow> slice \<Rightarrow> bool" where
  "at_most_one bs key = (\<not> (present (liveStore bs) key \<and> present (deadStore bs) key))"


text \<open>
  The stores of the specification's scenarios: S1 after the first insert
  (\<open>live = {a:1}\<close>, \<open>dead = {}\<close>), and S2 (\<open>dead = {b:1}\<close>, nothing live).
\<close>

definition scenario_S1 :: BothKeyStore where
  "scenario_S1 =
     \<lparr>liveStore = [(''a'', \<lparr>version = ''1-aa'', body = ''alive'', flags = 0, sequence = 1\<rparr>)],
      deadStore = [],
      lastSeq = 1\<rparr>"

definition scenario_S2 :: BothKeyStore where
  "scenario_S2 =
     \<lparr>liveStore = [],
      deadStore = [(''b'', \<lparr>version = ''1-aa'', body = ''tombstone'', flags = 1, sequence = 1\<rparr>)],
      lastSeq = 1\<rparr>"



section \<open>The merged enumerator of BothKeyStore\<close>

datatype SortOption = kDescending | kUnsorted | kAscending

record EnumOptions =
  includeDeleted :: bool
  sortOption :: SortOption

text \<open>
  Modelled from the spec: the cursor of a physical key-store (\<open>RecordEnumerator::Impl\<close>,
  created by the physical store's \<open>newEnumeratorImpl\<close>) is not in the files at hand.
  Section 2 and 6: an abstract cursor over a single key-store with key, sequence, read and
  next; sequence-ordered and key-ordered enumeration with \<open>since\<close>. The cursor starts
  before its first record; \<open>next\<close> moves to the next record and returns false when there
  is none. Keys are ordered as byte strings.
\<close>

record Impl =
  impl_cur :: "(slice \<times> Rec) option"
  impl_pending :: "(slice \<times> Rec) list"

definition impl_next :: "Impl \<Rightarrow> bool \<times> Impl" where
  "impl_next c =
     (case impl_pending c of
        [] \<Rightarrow> (False, c\<lparr>impl_cur := None\<rparr>)
      | r # rs \<Rightarrow> (True, \<lparr>impl_cur = Some r, impl_pending = rs\<rparr>))"

definition ks_newEnumeratorImpl :: "bool \<Rightarrow> sequence_t \<Rightarrow> EnumOptions \<Rightarrow> KeyStore \<Rightarrow> Impl" where
  "ks_newEnumeratorImpl bySeq since opts st =
     (let recs = filter (\<lambda>(k, r). since < sequence r) st;
          ascending = (if bySeq then sort_key (\<lambda>(k, r). sequence r) recs else sort_key fst recs)
      in \<lparr>impl_cur = None,
          impl_pending = (case sortOption opts of
                            kUnsorted \<Rightarrow> recs
                          | kAscending \<Rightarrow> ascending
                          | kDescending \<Rightarrow> rev ascending)\<rparr>)"

text \<open>The three-way comparison \<open>compare\<close> of the source, and \<open>slice::compare\<close> by its sign.\<close>

definition compare :: "'a::linorder \<Rightarrow> 'a \<Rightarrow> int" where
  "compare a b = (if a < b then - 1 else if b < a then 1 else 0)"

text \<open>
  \<open>BothEnumeratorImpl\<close>. The two \<open>unique_ptr\<close>s are options; \<open>current\<close> is the raw pointer
  \<open>_current\<close>: null, or the live or the dead cursor.
\<close>

datatype Which = Live | Dead

record BothEnumeratorImpl =
  liveImpl :: "Impl option"
  deadImpl :: "Impl option"
  current :: "Which option"
  cmp :: int
  bySequence :: bool
  descending :: bool

definition new_BothEnumeratorImpl ::
  "bool \<Rightarrow> sequence_t \<Rightarrow> EnumOptions \<Rightarrow> KeyStore \<Rightarrow> KeyStore \<Rightarrow> BothEnumeratorImpl" where
  "new_BothEnumeratorImpl bySeq since opts live dead =
     \<lparr>liveImpl = Some (ks_newEnumeratorImpl bySeq since opts live),
      deadImpl = Some (ks_newEnumeratorImpl bySeq since opts dead),
      current = None,
      cmp = 0,
      bySequence = bySeq,
      descending = (sortOption opts = kDescending)\<rparr>"

text \<open>
  \<open>if (!impl->next()) impl.reset();\<close> on one of the two cursors. Calling through a
  \<open>unique_ptr\<close> that was reset dereferences null.
\<close>

definition advance :: "Impl option \<Rightarrow> error + Impl option" where
  "advance p =
     (case p of
        None \<Rightarrow> Inl NullDereference
      | Some c \<Rightarrow> (case impl_next c of (True, c') \<Rightarrow> Inr (Some c') | (False, c') \<Rightarrow> Inr None))"

text \<open>
  The key and the sequence a positioned cursor is at. The merged enumerator reads them only
  from a cursor whose \<open>next\<close> has returned true.
\<close>

definition impl_key :: "Impl \<Rightarrow> slice" where
  "impl_key c = (case impl_cur c of Some (k, r) \<Rightarrow> k | None \<Rightarrow> [])"

definition impl_sequence :: "Impl \<Rightarrow> sequence_t" where
  "impl_sequence c = (case impl_cur c of Some (k, r) \<Rightarrow> sequence r | None \<Rightarrow> 0)"

text \<open>
  \<open>BothEnumeratorImpl::next\<close>. A null dereference ends the program, so no state is
  returned with it.
\<close>

definition both_next :: "BothEnumeratorImpl \<Rightarrow> error + bool \<times> BothEnumeratorImpl" where
  "both_next e =
     (case (if cmp e \<le> 0 then advance (liveImpl e) else Inr (liveImpl e)) of
        Inl err \<Rightarrow> Inl err
      | Inr live \<Rightarrow>
          (case (if 0 \<le> cmp e then advance (deadImpl e) else Inr (deadImpl e)) of
             Inl err \<Rightarrow> Inl err
           | Inr dead \<Rightarrow>
               (case (live, dead) of
                  (None, None) \<Rightarrow>
                    Inr (False, e\<lparr>liveImpl := None, deadImpl := None, cmp := 0, current := None\<rparr>)
                | _ \<Rightarrow>
                    (let c = (case (live, dead) of
                                (Some l, Some d) \<Rightarrow>
                                  if bySequence e then compare (impl_sequence l) (impl_sequence d)
                                  else compare (impl_key l) (impl_key d)
                              | (Some l, None) \<Rightarrow> - 1
                              | (None, _) \<Rightarrow> 1);
                         c' = (if descending e then - c else c)
                     in Inr (True,
                             e\<lparr>liveImpl := live, deadImpl := dead, cmp := c',
                               current := (if c' \<le> 0
                                           then (case live of None \<Rightarrow> None | Some l \<Rightarrow> Some Live)
                                           else (case dead of None \<Rightarrow> None | Some d \<Rightarrow> Some Dead))\<rparr>)))))"

text \<open>\<open>key()\<close> and \<open>sequence()\<close> of the merged enumerator read through \<open>_current\<close>.\<close>

definition both_key :: "BothEnumeratorImpl \<Rightarrow> error + slice" where
  "both_key e =
     (case current e of
        None \<Rightarrow> Inl NullDereference
      | Some Live \<Rightarrow> (case liveImpl e of None \<Rightarrow> Inl NullDereference | Some l \<Rightarrow> Inr (impl_key l))
      | Some Dead \<Rightarrow> (case deadImpl e of None \<Rightarrow> Inl NullDereference | Some d \<Rightarrow> Inr (impl_key d)))"

definition both_sequence :: "BothEnumeratorImpl \<Rightarrow> error + sequence_t" where
  "both_sequence e =
     (case current e of
        None \<Rightarrow> Inl NullDereference
      | Some Live \<Rightarrow>
          (case liveImpl e of None \<Rightarrow> Inl NullDereference | Some l \<Rightarrow> Inr (impl_sequence l))
      | Some Dead \<Rightarrow>
          (case deadImpl e of None \<Rightarrow> Inl NullDereference | Some d \<Rightarrow> Inr (impl_sequence d)))"

text \<open>
  \<open>BothKeyStore::newEnumeratorImpl\<close>: the merged enumerator, or the live store's own.
\<close>

datatype EnumeratorImpl = Merged BothEnumeratorImpl | Single Impl

definition newEnumeratorImpl ::
  "BothKeyStore \<Rightarrow> bool \<Rightarrow> sequence_t \<Rightarrow> EnumOptions \<Rightarrow> EnumeratorImpl" where
  "newEnumeratorImpl bs bySeq since opts =
     (if includeDeleted opts
      then (let opts' = (if sortOption opts = kUnsorted then opts\<lparr>sortOption := kAscending\<rparr>
                         else opts)
            in Merged (new_BothEnumeratorImpl bySeq since opts' (liveStore bs) (deadStore bs)))
      else Single (ks_newEnumeratorImpl bySeq since (opts\<lparr>includeDeleted := True\<rparr>) (liveStore bs)))"

text \<open>
  A caller's loop: \<open>n\<close> calls of \<open>next()\<close>, stopping at the first that returns false or
  fails. The result is that of the last call made.
\<close>

fun next_times :: "nat \<Rightarrow> BothEnumeratorImpl \<Rightarrow> error + bool \<times> BothEnumeratorImpl" where
  "next_times 0 e = Inr (True, e)"
| "next_times (Suc n) e =
     (case next_times n e of
        Inl err \<Rightarrow> Inl err
      | Inr (False, e') \<Rightarrow> Inr (False, e')
      | Inr (True, e') \<Rightarrow> both_next e')"

text \<open>The result of the \<open>n\<close>-th call, with the key the enumerator is then at.\<close>

definition key_after :: "nat \<Rightarrow> BothEnumeratorImpl \<Rightarrow> error + bool \<times> (error + slice)" where
  "key_after n e =
     (case next_times n e of Inl err \<Rightarrow> Inl err | Inr (b, e') \<Rightarrow> Inr (b, both_key e'))"

text \<open>Scenario S4 of the specification: \<open>live = {a:10, c:30}\<close>, \<open>dead = {b:20, d:40}\<close>.\<close>

definition scenario_S4 :: BothKeyStore where
  "scenario_S4 =
     \<lparr>liveStore = [(''a'', \<lparr>version = [], body = [], flags = 0, sequence = 10\<rparr>),
                   (''c'', \<lparr>version = [], body = [], flags = 0, sequence = 30\<rparr>)],
      deadStore = [(''b'', \<lparr>version = [], body = [], flags = 1, sequence = 20\<rparr>),
                   (''d'', \<lparr>version = [], body = [], flags = 1, sequence = 40\<rparr>)],
      lastSeq = 40\<rparr>"

definition S4_ascending_by_key :: BothEnumeratorImpl where
  "S4_ascending_by_key =
     new_BothEnumeratorImpl False 0 \<lparr>includeDeleted = True, sortOption = kAscending\<rparr>
       (liveStore scenario_S4) (deadStore scenario_S4)"

definition S4_descending_by_sequence :: BothEnumeratorImpl where
  "S4_descending_by_sequence =
     new_BothEnumeratorImpl True 0 \<lparr>includeDeleted = True, sortOption = kDescending\<rparr>
       (liveStore scenario_S4) (deadStore scenario_S4)"


section \<open>Database: the cache of key-store handles\<close>

text \<open>
  \<open>_kvHandles\<close> maps a key-store name to a handle pointer; a null pointer is \<open>None\<close>, so
  an entry can be present and hold null. ForestDB itself is outside the repository:
  \<open>fdb_closed\<close> lists the handles given to \<open>fdb_kvs_close\<close>, \<open>fdb_opened\<close> the names given to
  \<open>fdb_kvs_open\<close>, and the status and the handle ForestDB returns are arguments.
\<close>

type_synonym fdb_kvs_handle = nat

datatype fdb_status = FDB_RESULT_SUCCESS | FDB_RESULT_FAIL int

record Database =
  kvHandles :: "(string \<times> fdb_kvs_handle option) list"
  fdb_closed :: "fdb_kvs_handle list"
  fdb_opened :: "string list"

text \<open>\<open>check(status)\<close> throws the status as an error unless it is success.\<close>

definition check :: "fdb_status \<Rightarrow> fdb_status + unit" where
  "check status = (if status \<noteq> FDB_RESULT_SUCCESS then Inl status else Inr ())"

text \<open>
  \<open>_kvHandles[name]\<close>: the subscript operator of the standard map returns the mapped
  value, after inserting a value-initialised one (a null pointer) under a key that has none.
\<close>

definition kvHandles_subscript ::
  "Database \<Rightarrow> string \<Rightarrow> fdb_kvs_handle option \<times> Database" where
  "kvHandles_subscript db name =
     (case map_of (kvHandles db) name of
        Some h \<Rightarrow> (h, db)
      | None \<Rightarrow> (None, db\<lparr>kvHandles := AList.update name None (kvHandles db)\<rparr>))"

definition closeKeyStore :: "fdb_status \<Rightarrow> Database \<Rightarrow> string \<Rightarrow> (fdb_status + unit) \<times> Database" where
  "closeKeyStore close_status db name =
     (let (handle, db1) = kvHandles_subscript db name
      in case handle of
           None \<Rightarrow> (Inr (), db1)
         | Some h \<Rightarrow>
             (let db2 = db1\<lparr>fdb_closed := fdb_closed db1 @ [h]\<rparr>
              in case check close_status of
                   Inl err \<Rightarrow> (Inl err, db2)
                 | Inr u \<Rightarrow> (Inr (), db2\<lparr>kvHandles := AList.delete name (kvHandles db2)\<rparr>)))"

definition openKVS ::
  "fdb_status \<Rightarrow> fdb_kvs_handle \<Rightarrow> Database \<Rightarrow> string
     \<Rightarrow> (fdb_status + fdb_kvs_handle option) \<times> Database" where
  "openKVS open_status new_handle db name =
     (case map_of (kvHandles db) name of
        Some h \<Rightarrow> (Inr h, db)
      | None \<Rightarrow>
          (let db1 = db\<lparr>fdb_opened := fdb_opened db @ [name]\<rparr>
           in case check open_status of
                Inl err \<Rightarrow> (Inl err, db1)
              | Inr u \<Rightarrow>
                  (Inr (Some new_handle),
                   db1\<lparr>kvHandles := AList.update name (Some new_handle) (kvHandles db1)\<rparr>)))"

definition empty_cache_Database :: Database where
  "empty_cache_Database = \<lparr>kvHandles = [], fdb_closed = [], fdb_opened = []\<rparr>"



section \<open>SQLiteQuery: values, statements and recordings\<close>

text \<open>
  A Fleece value, as far as the query code distinguishes them. A double is kept as its 64
  bits. The encoder is outside the repository; it is deterministic, and every enumerator
  encodes with a fresh table of shared keys, so the bytes of a recording are represented
  by the values written into it.
\<close>

datatype Value =
    VNull
  | VBool bool
  | VInt "64 word"
  | VUInt "64 word"
  | VDouble "64 word"
  | VString slice
  | VData slice
  | VArray "Value list"
  | VDict "(slice \<times> Value) list"

text \<open>
  A column of the current row of a statement, by its runtime SQLite type. A blob carries
  its bytes and the Fleece value \<open>Value::fromTrustedData\<close> finds in them (\<open>None\<close> when it
  returns null).
\<close>

datatype Column =
    SQLITE_NULL
  | SQLITE_INTEGER "64 word"
  | SQLITE_FLOAT "64 word"
  | SQLITE_TEXT slice
  | SQLITE_BLOB slice "Value option"

text \<open>
  What \<open>bind\<close> gives a statement parameter: a signed 64-bit integer, the \<open>asDouble()\<close> of a
  value, a text, or the Fleece encoding of a value as a blob.
\<close>

datatype Binding =
    BindInt "64 word"
  | BindDouble Value
  | BindText slice
  | BindBlob Value

text \<open>
  A compiled statement: the names of its SQL parameters, what is bound to them, its number
  of columns, the row it is at, and the rows \<open>executeStep\<close> will still produce. An unbound parameter is SQL NULL,
  which the query reads as \<open>MISSING\<close>.
\<close>

record Statement =
  stmt_parameters :: "slice list"
  stmt_bindings :: "(slice \<times> Binding) list"
  stmt_columnCount :: nat
  stmt_row :: "Column list"
  stmt_pending :: "Column list list"

text \<open>
  \<open>Statement::bind\<close> by name. An unknown name raises an SQLite exception with code
  \<open>SQLITE_RANGE\<close>, which \<open>bindParameters\<close> turns into \<open>InvalidQueryParam\<close>.
\<close>

definition bind :: "Statement \<Rightarrow> slice \<Rightarrow> Binding \<Rightarrow> error + Statement" where
  "bind st sqlKey b =
     (if sqlKey \<in> set (stmt_parameters st)
      then Inr (st\<lparr>stmt_bindings := AList.update sqlKey b (stmt_bindings st)\<rparr>)
      else Inl InvalidQueryParam)"

text \<open>
  The query, with what its enumerators read from it and from the key-store behind it:
  the required parameter names, the index of the first custom result column, the compiled
  statement (whose pending rows are the rows that running the query now yields), and the
  key-store's current \<open>lastSequence()\<close>.
\<close>

record SQLiteQuery =
  q_parameters :: "slice list"
  q_1stCustomResultColumn :: nat
  q_statement :: Statement
  q_lastSequence :: sequence_t

record QueryOptions =
  paramBindings :: "Value option"
  oneShot :: bool

text \<open>
  \<open>SQLiteQueryPlayback\<close>: the recording is a flat array with two items per row, the array
  of the row's columns and the bitmap of its missing columns; \<open>pb_iter\<close> is the index the
  array iterator is at.
\<close>

record Playback =
  pb_recording :: "Value list"
  pb_iter :: nat
  pb_firstRow :: nat

definition playback_hasEqualContents :: "Playback \<Rightarrow> Playback \<Rightarrow> bool" where
  "playback_hasEqualContents p other = (pb_recording p = pb_recording other)"

text \<open>
  The conversions of the integer types in \<open>seek\<close>: to \<open>int64_t\<close>, to \<open>uint64_t\<close> and to
  \<open>uint32_t\<close>, each modulo its width. The row index is an \<open>int64_t\<close>; the overflow of
  \<open>rowIndex *= 2\<close>, undefined in C++, is the wrap-around of the two's complement.
\<close>

definition to_int64 :: "int \<Rightarrow> int" where
  "to_int64 x = signed_take_bit 63 x"

definition to_uint64 :: "int \<Rightarrow> int" where
  "to_uint64 x = take_bit 64 x"

definition to_uint32 :: "int \<Rightarrow> nat" where
  "to_uint32 x = nat (take_bit 32 x)"

text \<open>
  \<open>SQLiteQueryPlayback::seek\<close>. The count of the array is a \<open>uint32_t\<close>, compared with the
  row index as an \<open>int64_t\<close>; the iterator is moved from the start of the array by the row
  index cut to 32 bits.
\<close>

definition playback_seek :: "Playback \<Rightarrow> int \<Rightarrow> bool \<times> Playback" where
  "playback_seek p rowIndex =
     (let r = to_int64 (rowIndex - int (pb_firstRow p))
      in if r < 0 then (False, p)
         else (let r2 = to_int64 (r * 2)
               in if int (length (pb_recording p)) \<le> r2 then (False, p)
                  else (True, p\<lparr>pb_iter := to_uint32 r2\<rparr>)))"



section \<open>SQLiteQueryEnumerator\<close>

record Enumerator =
  options :: QueryOptions
  statement :: "Statement option"
  nCols :: nat
  unboundParameters :: "slice list"
  lastSequence :: sequence_t
  rowCount :: nat
  curRow :: int
  curEnumerator :: "Playback option"
  nextEnumerator :: "Playback option"
  oldEnumerator :: "Playback option"
  observingTransaction :: bool

text \<open>
  \<open>bindParameters\<close>, one dictionary entry at a time. The key is erased from the unbound
  parameters before the value is looked at.
\<close>

definition bind_entry :: "slice \<times> Value \<Rightarrow> Enumerator \<Rightarrow> error + Enumerator" where
  "bind_entry kv e =
     (let key = fst kv;
          val = snd kv;
          e1 = e\<lparr>unboundParameters := removeAll key (unboundParameters e)\<rparr>;
          sqlKey = ''$_'' @ key
      in case statement e1 of
           None \<Rightarrow> Inl NullDereference
         | Some st \<Rightarrow>
             (case val of
                VNull \<Rightarrow> Inr e1
              | VBool b \<Rightarrow> map_sum id (\<lambda>st'. e1\<lparr>statement := Some st'\<rparr>) (bind st sqlKey (BindDouble val))
              | VInt n \<Rightarrow> map_sum id (\<lambda>st'. e1\<lparr>statement := Some st'\<rparr>) (bind st sqlKey (BindInt n))
              | VUInt n \<Rightarrow> map_sum id (\<lambda>st'. e1\<lparr>statement := Some st'\<rparr>) (bind st sqlKey (BindDouble val))
              | VDouble d \<Rightarrow> map_sum id (\<lambda>st'. e1\<lparr>statement := Some st'\<rparr>) (bind st sqlKey (BindDouble val))
              | VString s \<Rightarrow> map_sum id (\<lambda>st'. e1\<lparr>statement := Some st'\<rparr>) (bind st sqlKey (BindText s))
              | _ \<Rightarrow> map_sum id (\<lambda>st'. e1\<lparr>statement := Some st'\<rparr>) (bind st sqlKey (BindBlob val))))"

fun bind_entries :: "(slice \<times> Value) list \<Rightarrow> Enumerator \<Rightarrow> error + Enumerator" where
  "bind_entries [] e = Inr e"
| "bind_entries (kv # kvs) e =
     (case bind_entry kv e of Inl err \<Rightarrow> Inl err | Inr e' \<Rightarrow> bind_entries kvs e')"

text \<open>
  The argument is the value \<open>Value::fromData\<close> finds in the bindings (after the conversion
  from JSON when they are JSON); \<open>asDict()\<close> is null unless it is a dictionary.
\<close>

definition bindParameters :: "Value \<Rightarrow> Enumerator \<Rightarrow> error + Enumerator" where
  "bindParameters root e =
     (case root of
        VDict entries \<Rightarrow> bind_entries entries e
      | _ \<Rightarrow> Inl InvalidParameter)"

definition kPageSize :: nat where
  "kPageSize = 50"


definition stepStatement :: "Enumerator \<Rightarrow> bool \<times> Enumerator" where
  "stepStatement e =
     (case statement e of
        None \<Rightarrow> (False, e)
      | Some st \<Rightarrow>
          (case stmt_pending st of
             r # rs \<Rightarrow>
               (True, e\<lparr>statement := Some (st\<lparr>stmt_row := r, stmt_pending := rs\<rparr>),
                        rowCount := rowCount e + 1\<rparr>)
           | [] \<Rightarrow> (False, e\<lparr>statement := None, observingTransaction := False\<rparr>)))"

text \<open>
  \<open>encodeColumn\<close>: whether the column is there (false for SQL NULL), and the value written.
\<close>

definition encodeColumn :: "SQLiteQuery \<Rightarrow> nat \<Rightarrow> Column \<Rightarrow> error + bool \<times> Value" where
  "encodeColumn q i col =
     (case col of
        SQLITE_NULL \<Rightarrow> Inr (False, VNull)
      | SQLITE_INTEGER n \<Rightarrow> Inr (True, VInt n)
      | SQLITE_FLOAT d \<Rightarrow> Inr (True, VDouble d)
      | SQLITE_BLOB bytes decoded \<Rightarrow>
          if q_1stCustomResultColumn q \<le> i
          then (case decoded of None \<Rightarrow> Inl CorruptRevisionData | Some v \<Rightarrow> Inr (True, v))
          else Inr (True, VString bytes)
      | SQLITE_TEXT s \<Rightarrow> Inr (True, VString s))"

text \<open>
  \<open>missingCols |= (1 << i)\<close>. The constant \<open>1\<close> is a 32-bit \<open>int\<close>, so the shift is done in
  32 bits and its result is converted to 64 bits as a signed value. A shift of an \<open>int\<close> by
  32 or more is undefined in C++.
\<close>

definition set_missing :: "nat \<Rightarrow> 64 word \<Rightarrow> error + 64 word" where
  "set_missing i missingCols =
     (if i < 32 then Inr (missingCols OR scast (push_bit i (1 :: 32 word)))
      else Inl UndefinedShift)"

text \<open>
  The loop of \<open>encodeRow\<close> over the columns of the current row, from column \<open>i\<close> on: the
  values written and the bitmap.
\<close>

fun encodeColumns ::
  "SQLiteQuery \<Rightarrow> nat \<Rightarrow> Column list \<Rightarrow> 64 word \<Rightarrow> error + Value list \<times> 64 word" where
  "encodeColumns q i [] missingCols = Inr ([], missingCols)"
| "encodeColumns q i (col # cols) missingCols =
     (case encodeColumn q i col of
        Inl err \<Rightarrow> Inl err
      | Inr (there, v) \<Rightarrow>
          (case (if \<not> there \<and> i < 64 then set_missing i missingCols else Inr missingCols) of
             Inl err \<Rightarrow> Inl err
           | Inr missingCols' \<Rightarrow>
               (case encodeColumns q (i + 1) cols missingCols' of
                  Inl err \<Rightarrow> Inl err
                | Inr (vs, m) \<Rightarrow> Inr (v # vs, m))))"

text \<open>
  \<open>encodeRow\<close> encodes the first \<open>_nCols\<close> columns of the row and writes two items: the
  array of the columns, and the bitmap.
\<close>

definition encodeRow :: "SQLiteQuery \<Rightarrow> nat \<Rightarrow> Column list \<Rightarrow> error + Value list" where
  "encodeRow q n row =
     (case encodeColumns q 0 (take n row) 0 of
        Inl err \<Rightarrow> Inl err
      | Inr (vs, missingCols) \<Rightarrow> Inr [VArray vs, VUInt missingCols])"


text \<open>
  The loop of \<open>encodeRows\<close>: at most \<open>maxRows\<close> rows are stepped to and encoded; \<open>enc\<close> is
  what the encoder holds so far. The result is the number of rows and the recording, or the
  error raised, and the enumerator as the loop leaves it.
\<close>

function encodeRows_loop ::
  "SQLiteQuery \<Rightarrow> nat \<Rightarrow> nat \<Rightarrow> Value list \<Rightarrow> Enumerator
     \<Rightarrow> (error + nat \<times> Value list) \<times> Enumerator" where
  "encodeRows_loop q maxRows numRows enc e =
     (if numRows < maxRows
      then (case stepStatement e of
              (False, e') \<Rightarrow> (Inr (numRows, enc), e')
            | (True, e') \<Rightarrow>
                (case statement e' of
                   None \<Rightarrow> (Inl NullDereference, e')
                 | Some st \<Rightarrow>
                     (case encodeRow q (nCols e') (stmt_row st) of
                        Inl err \<Rightarrow> (Inl err, e')
                      | Inr items \<Rightarrow> encodeRows_loop q maxRows (numRows + 1) (enc @ items) e')))
      else (Inr (numRows, enc), e))"
  by pat_completeness auto
termination
  by (relation "measure (\<lambda>(q, maxRows, numRows, enc, e). maxRows - numRows)") auto

declare encodeRows_loop.simps [simp del]

definition encodeRows ::
  "SQLiteQuery \<Rightarrow> nat \<Rightarrow> Enumerator \<Rightarrow> (error + nat \<times> Value list) \<times> Enumerator" where
  "encodeRows q maxRows e = encodeRows_loop q maxRows 0 [] e"

definition recordRows ::
  "SQLiteQuery \<Rightarrow> nat \<Rightarrow> Enumerator \<Rightarrow> (error + Playback option) \<times> Enumerator" where
  "recordRows q maxRows e =
     (case statement e of
        None \<Rightarrow> (Inr None, e)
      | Some st \<Rightarrow>
          (let firstRow = rowCount e
           in case encodeRows q maxRows e of
                (Inl err, e') \<Rightarrow> (Inl err, e')
              | (Inr (numRows, recording), e') \<Rightarrow>
                  if numRows = 0 then (Inr None, e')
                  else (Inr (Some \<lparr>pb_recording = recording, pb_iter = 0, pb_firstRow = firstRow\<rparr>),
                        e')))"




text \<open>
  \<open>hasEqualContents\<close> of the enumerator picks one recording of each side and calls the
  playback's comparison through the pointers, without a null check.
\<close>

definition own_playback :: "Enumerator \<Rightarrow> Playback option" where
  "own_playback e =
     (case (case curEnumerator e of Some p \<Rightarrow> Some p | None \<Rightarrow> nextEnumerator e) of
        Some p \<Rightarrow> Some p
      | None \<Rightarrow> oldEnumerator e)"

definition other_playback :: "Enumerator \<Rightarrow> Playback option" where
  "other_playback other = (case curEnumerator other of Some p \<Rightarrow> Some p | None \<Rightarrow> nextEnumerator other)"

definition hasEqualContents :: "Enumerator \<Rightarrow> Enumerator \<Rightarrow> error + bool" where
  "hasEqualContents e other =
     (case own_playback e of
        None \<Rightarrow> Inl NullDereference
      | Some e1 \<Rightarrow>
          (case other_playback other of
             None \<Rightarrow> Inl NullDereference
           | Some e2 \<Rightarrow> Inr (playback_hasEqualContents e1 e2)))"



text \<open>
  The loop of \<open>seek\<close> that steps the statement until \<open>rowCount\<close> reaches the row. The
  comparison \<open>_rowCount < rowIndex\<close> is made in \<open>uint64_t\<close>.
\<close>

function step_to :: "int \<Rightarrow> Enumerator \<Rightarrow> bool \<times> Enumerator" where
  "step_to rowIndex e =
     (if int (rowCount e) < to_uint64 rowIndex
      then (case stepStatement e of
              (False, e') \<Rightarrow> (False, e')
            | (True, e') \<Rightarrow> step_to rowIndex e')
      else (True, e))"
  by pat_completeness auto
termination
  by (relation "measure (\<lambda>(rowIndex, e). nat (to_uint64 rowIndex - int (rowCount e)))")
     (auto simp: stepStatement_def split: option.splits list.splits)

declare step_to.simps [simp del]

text \<open>
  \<open>SQLiteQueryEnumerator::seek\<close>: the error raised, if any, and the enumerator as the call
  leaves it.
\<close>

definition enumerator_seek ::
  "SQLiteQuery \<Rightarrow> int \<Rightarrow> Enumerator \<Rightarrow> (error + unit) \<times> Enumerator" where
  "enumerator_seek q rowIndex e =
     (if rowIndex = curRow e then (Inr (), e)
      else (case (case curEnumerator e of
                    None \<Rightarrow> None
                  | Some p \<Rightarrow> (case playback_seek p rowIndex of
                                 (True, p') \<Rightarrow> Some p'
                               | (False, p') \<Rightarrow> None)) of
              Some p' \<Rightarrow> (Inr (), e\<lparr>curEnumerator := Some p', curRow := rowIndex\<rparr>)
            | None \<Rightarrow>
                if rowIndex < curRow e
                then (case curEnumerator e of
                        None \<Rightarrow> (Inl UnsupportedOperation, e)
                      | Some p \<Rightarrow>
                          if rowIndex + 1 = int (pb_firstRow p)
                          then (Inr (),
                                e\<lparr>nextEnumerator := Some (snd (playback_seek p (int (pb_firstRow p)))),
                                  curEnumerator := None,
                                  curRow := rowIndex\<rparr>)
                          else (Inl UnsupportedOperation, e))
                else (case nextEnumerator e of
                        Some n \<Rightarrow>
                          (case playback_seek n rowIndex of
                             (True, n') \<Rightarrow>
                               (Inr (), e\<lparr>curEnumerator := Some n', nextEnumerator := None,
                                          curRow := rowIndex\<rparr>)
                           | (False, n') \<Rightarrow> (Inl InvalidParameter, e))
                      | None \<Rightarrow>
                          (case step_to rowIndex (e\<lparr>curEnumerator := None\<rparr>) of
                             (False, e1) \<Rightarrow> (Inl InvalidParameter, e1)
                           | (True, e1) \<Rightarrow>
                               (case recordRows q kPageSize e1 of
                                  (Inl err, e2) \<Rightarrow> (Inl err, e2)
                                | (Inr None, e2) \<Rightarrow> (Inl InvalidParameter, e2)
                                | (Inr (Some p), e2) \<Rightarrow>
                                    (Inr (), e2\<lparr>curEnumerator := Some p,
                                                curRow := rowIndex\<rparr>))))))"


text \<open>
  A query of 33 columns with no parameters and no prefix columns, and a row of which only
  column 31 is SQL NULL.
\<close>

definition plain_query :: SQLiteQuery where
  "plain_query =
     \<lparr>q_parameters = [],
      q_1stCustomResultColumn = 0,
      q_statement = \<lparr>stmt_parameters = [], stmt_bindings = [], stmt_columnCount = 33,
                     stmt_row = [], stmt_pending = []\<rparr>,
      q_lastSequence = 0\<rparr>"

definition row_null_at_31 :: "Column list" where
  "row_null_at_31 = replicate 31 (SQLITE_INTEGER 7) @ [SQLITE_NULL, SQLITE_INTEGER 7]"



section \<open>DBActor: peer checkpoints\<close>























text \<open>
  An enumerator before its parameters are bound, on a statement with the one parameter
  \<open>$_n\<close> that the query requires; and a checkpoint store with a request that matches it.
\<close>

definition param_enumerator :: Enumerator where
  "param_enumerator =
     \<lparr>options = \<lparr>paramBindings = Some (VDict [(''n'', VNull)]), oneShot = True\<rparr>,
      statement = Some \<lparr>stmt_parameters = [''$_n''], stmt_bindings = [], stmt_columnCount = 1,
                        stmt_row = [], stmt_pending = []\<rparr>,
      nCols = 1,
      unboundParameters = [''n''],
      lastSequence = 0,
      rowCount = 0,
      curRow = - 1,
      curEnumerator = None,
      nextEnumerator = None,
      oldEnumerator = None,
      observingTransaction = False\<rparr>"







text \<open>
  A query of one column with three result rows, at sequence 3; its buffered enumerator as
  the constructor leaves it, and after the first \<open>next()\<close>.
\<close>

definition buffered :: QueryOptions where
  "buffered = \<lparr>paramBindings = None, oneShot = False\<rparr>"

definition three_row_query :: SQLiteQuery where
  "three_row_query =
     \<lparr>q_parameters = [],
      q_1stCustomResultColumn = 0,
      q_statement =
        \<lparr>stmt_parameters = [], stmt_bindings = [], stmt_columnCount = 1, stmt_row = [],
         stmt_pending = [[SQLITE_TEXT ''doc1''], [SQLITE_TEXT ''doc2''], [SQLITE_TEXT ''doc3'']]\<rparr>,
      q_lastSequence = 3\<rparr>"

definition three_row_recording :: Playback where
  "three_row_recording =
     \<lparr>pb_recording = [VArray [VString ''doc1''], VUInt 0,
                      VArray [VString ''doc2''], VUInt 0,
                      VArray [VString ''doc3''], VUInt 0],
      pb_iter = 0,
      pb_firstRow = 0\<rparr>"

definition three_row_fresh :: Enumerator where
  "three_row_fresh =
     \<lparr>options = buffered,
      statement = None,
      nCols = 1,
      unboundParameters = [],
      lastSequence = 3,
      rowCount = 3,
      curRow = - 1,
      curEnumerator = None,
      nextEnumerator = Some three_row_recording,
      oldEnumerator = None,
      observingTransaction = False\<rparr>"

definition three_row_at_0 :: Enumerator where
  "three_row_at_0 =
     three_row_fresh\<lparr>curRow := 0, curEnumerator := Some three_row_recording,
                      nextEnumerator := None\<rparr>"




section \<open>Properties of BothKeyStore\<close>

lemma ks_get_update:
  "ks_get (AList.update k r st) k' = (if k' = k then Some r else ks_get st k')"
  by (simp add: ks_get_def update_conv')

lemma ks_get_delete:
  "ks_get (AList.delete k st) k' = (if k' = k then None else ks_get st k')"
  by (simp add: ks_get_def delete_conv')


lemma ks_set_get:
  "ks_set st l key ver val fl rs ns = (seq, st', l') \<Longrightarrow>
     ks_get st' k = (if k = key \<and> 0 < seq
                     then Some \<lparr>version = ver, body = val, flags = fl, sequence = seq\<rparr>
                     else ks_get st k)"
  by (auto simp: ks_set_def Let_def ks_get_def update_conv' split: option.splits if_splits)

lemma ks_set_zero:
  "ks_set st l key ver val fl rs ns = (0, st', l') \<Longrightarrow> st' = st \<and> l' = l"
  by (auto simp: ks_set_def Let_def split: option.splits if_splits)

lemma ks_set_upsert:
  "ks_set st l key ver val fl None ns =
     (l + 1, AList.update key \<lparr>version = ver, body = val, flags = fl, sequence = l + 1\<rparr> st, l + 1)"
  by (simp add: ks_set_def Let_def)

lemma ks_set_update_present:
  "ks_set st l key ver val fl (Some rs) ns = (seq, st', l') \<Longrightarrow> 0 < seq \<Longrightarrow> 0 < rs \<Longrightarrow>
     present st key"
  by (auto simp: ks_set_def Let_def present_def ks_get_def split: option.splits if_splits)

lemma ks_del_get:
  "ks_del st key e = (ok, st') \<Longrightarrow>
     ks_get st' k = (if k = key \<and> ok then None else ks_get st k)"
  by (auto simp: ks_del_def ks_get_def delete_conv' split: option.splits if_splits)

lemma ks_del_failed:
  "ks_del st key e = (False, st') \<Longrightarrow> st' = st"
  by (auto simp: ks_del_def split: option.splits if_splits)

lemma ks_del_uncond:
  "ks_get (snd (ks_del st key None)) k = (if k = key then None else ks_get st k)"
  by (auto simp: ks_del_def ks_get_def delete_conv' split: option.splits)

lemma at_most_one_with_stores:
  "at_most_one (with_stores d t oth l) k = (\<not> (present t k \<and> present oth k))"
  by (auto simp: at_most_one_def with_stores_def)

lemma at_most_one_target_other:
  "at_most_one bs k = (\<not> (present (target_of d bs) k \<and> present (other_of d bs) k))"
  by (auto simp: at_most_one_def target_of_def other_of_def)

lemma with_stores_same:
  "with_stores d (target_of d bs) (other_of d bs) (lastSeq bs) = bs"
  by (simp add: with_stores_def target_of_def other_of_def)

lemma target_of_with_stores: "target_of d (with_stores d t oth l) = t"
  and other_of_with_stores: "other_of d (with_stores d t oth l) = oth"
  by (simp_all add: with_stores_def target_of_def other_of_def)

lemma set_at_most_one:
  assumes inv: "\<forall>k. at_most_one bs k"
    and run: "BothKeyStore_set am bs key ver val fl rs ns = (res, bs')"
  shows "at_most_one bs' k"
proof -
  define d where "d = (fl AND kDeleted \<noteq> 0)"
  define T where "T = target_of d bs"
  define Oth where "Oth = other_of d bs"
  have inv': "\<not> (present T k \<and> present Oth k)" for k
    using inv at_most_one_target_other [of bs k d] by (simp add: T_def Oth_def)
  obtain seq T' l' where
    first: "ks_set T (lastSeq bs) key ver val fl rs ns = (seq, T', l')"
    by (metis prod_cases3)
  have plain: "at_most_one (with_stores d T' Oth l') k" if ok: "rs = Some 0 \<longrightarrow> \<not> present Oth key"
    and mvcc: "rs \<noteq> None"
  proof -
    have "\<not> (present T' k \<and> present Oth k)"
    proof (cases "k = key \<and> 0 < seq")
      case True
      obtain s where s: "rs = Some s" using mvcc by auto
      have "\<not> present Oth key"
      proof (cases "s = 0")
        case True
        then show ?thesis using ok s by simp
      next
        case False
        then have "present T key"
          using ks_set_update_present [of T "lastSeq bs" key ver val fl s ns seq T' l'] first s True
          by simp
        then show ?thesis using inv' [of key] by simp
      qed
      then show ?thesis using True by simp
    next
      case False
      then have "ks_get T' k = ks_get T k"
        using ks_set_get [OF first, of k] by auto
      then show ?thesis using inv' [of k] by (simp add: present_def)
    qed
    then show ?thesis by (simp add: at_most_one_with_stores)
  qed
  show ?thesis
  proof (cases rs)
    case None
    have "bs' = with_stores d
            (AList.update key \<lparr>version = ver, body = val, flags = fl, sequence = lastSeq bs + 1\<rparr> T)
            (snd (ks_del Oth key None)) (lastSeq bs + 1)"
      using run None
      by (simp add: BothKeyStore_set_def Let_def ks_set_upsert d_def T_def Oth_def)
    then show ?thesis
      using inv' [of k]
      by (simp add: at_most_one_with_stores present_def ks_del_uncond ks_get_update)
  next
    case (Some s)
    show ?thesis
    proof (cases "s = 0")
      case zero: True
      show ?thesis
      proof (cases "ks_get Oth key")
        case (Some y)
        then have "bs' = bs"
          using run \<open>rs = Some s\<close> zero by (simp add: BothKeyStore_set_def Let_def d_def Oth_def)
        then show ?thesis using inv by simp
      next
        case None
        then have "bs' = with_stores d T' Oth l'"
          using run \<open>rs = Some s\<close> zero first
          by (simp add: BothKeyStore_set_def Let_def d_def T_def Oth_def)
        then show ?thesis
          using plain None \<open>rs = Some s\<close> by (simp add: present_def)
      qed
    next
      case pos: False
      show ?thesis
      proof (cases "seq = 0")
        case conflict: True
        then have same: "T' = T" "l' = lastSeq bs"
          using first ks_set_zero [of T "lastSeq bs" key ver val fl rs ns T' l'] by simp_all
        show ?thesis
        proof (cases "Assert am ns")
          case (Inl e)
          then have "bs' = with_stores d T Oth (lastSeq bs)"
            using run \<open>rs = Some s\<close> pos first conflict same
            by (simp add: BothKeyStore_set_def Let_def d_def T_def Oth_def)
          then show ?thesis using inv' [of k] by (simp add: at_most_one_with_stores)
        next
          case (Inr u)
          obtain ok Oth' where del: "ks_del Oth key (Some s) = (ok, Oth')"
            by (metis surj_pair)
          show ?thesis
          proof (cases ok)
            case True
            have "bs' = with_stores d
                    (AList.update key
                       \<lparr>version = ver, body = val, flags = fl, sequence = lastSeq bs + 1\<rparr> T)
                    Oth' (lastSeq bs + 1)"
              using run \<open>rs = Some s\<close> pos first conflict same Inr del True
              by (simp add: BothKeyStore_set_def Let_def ks_set_upsert d_def T_def Oth_def)
            then show ?thesis
              using inv' [of k] ks_del_get [OF del, of k] True
              by (simp add: at_most_one_with_stores present_def ks_get_update)
          next
            case False
            then have "Oth' = Oth"
              using del ks_del_failed [of Oth key "Some s" Oth'] by simp
            then have "bs' = with_stores d T Oth (lastSeq bs)"
              using run \<open>rs = Some s\<close> pos first conflict same Inr del False
              by (simp add: BothKeyStore_set_def Let_def d_def T_def Oth_def)
            then show ?thesis using inv' [of k] by (simp add: at_most_one_with_stores)
          qed
        qed
      next
        case False
        then have "bs' = with_stores d T' Oth l'"
          using run \<open>rs = Some s\<close> pos first
          by (simp add: BothKeyStore_set_def Let_def d_def T_def Oth_def)
        then show ?thesis
          using plain pos \<open>rs = Some s\<close> by simp
      qed
    qed
  qed
qed

lemma upsert_result:
  assumes run: "BothKeyStore_set am bs key ver val fl None ns = (res, bs')"
  shows "res = Inr (lastSeq bs + 1) \<and>
     ks_get (target_of (fl AND kDeleted \<noteq> 0) bs') key =
        Some \<lparr>version = ver, body = val, flags = fl, sequence = lastSeq bs + 1\<rparr> \<and>
     ks_get (other_of (fl AND kDeleted \<noteq> 0) bs') key = None"
  using run
  by (auto simp: BothKeyStore_set_def Let_def ks_set_upsert target_of_with_stores
        other_of_with_stores ks_del_uncond ks_get_update)


lemma nextExpiration_zero:
  "0 \<le> lx \<Longrightarrow> 0 \<le> dx \<Longrightarrow> (nextExpiration lx dx = 0) = (lx = 0 \<and> dx = 0)"
  by (auto simp: nextExpiration_def min_def max_def)

lemma nextExpiration_Min:
  assumes "0 \<le> lx" and "0 \<le> dx"
  shows "nextExpiration lx dx = (if lx = 0 \<and> dx = 0 then 0 else Min ({lx, dx} - {0}))"
proof (cases "lx = 0")
  case True
  then show ?thesis
    using assms by (cases "dx = 0") (simp_all add: nextExpiration_def max_def)
next
  case False
  show ?thesis
  proof (cases "dx = 0")
    case True
    then have "{lx, dx} - {0} = {lx}" using False by auto
    then show ?thesis using False True assms by (simp add: nextExpiration_def max_def)
  next
    case dx: False
    then have "{lx, dx} - {0} = {lx, dx}" using False by auto
    moreover have "0 < lx" "0 < dx" using False dx assms by simp_all
    ultimately show ?thesis using False dx by (simp add: nextExpiration_def min.commute)
  qed
qed

text \<open>
  C1. If every key is in at most one of the two sub-stores before a \<open>set\<close>, then so is every
  key after it, whichever path the call takes (plain upsert, MVCC insert, MVCC update, also
  when the assertion is raised). In particular a plain upsert (no \<open>replacingSequence\<close>)
  returns a positive sequence, the record is then stored under the key in the target
  sub-store chosen by the Deleted flag, and the key is absent from the other sub-store.
\<close>

theorem set_keeps_key_in_at_most_one_store:
  assumes inv: "\<forall>k. at_most_one bs k"
    and run: "BothKeyStore_set am bs key ver val fl rs ns = (res, bs')"
  shows "(\<forall>k. at_most_one bs' k) \<and>
         (rs = None \<longrightarrow>
            (\<exists>seq. res = Inr seq \<and> 0 < seq \<and>
               ks_get (target_of (fl AND kDeleted \<noteq> 0) bs') key =
                 Some \<lparr>version = ver, body = val, flags = fl, sequence = seq\<rparr> \<and>
               ks_get (other_of (fl AND kDeleted \<noteq> 0) bs') key = None))"
proof (intro conjI allI impI)
  fix k
  show "at_most_one bs' k"
    using set_at_most_one [OF inv run] .
next
  assume "rs = None"
  then show "\<exists>seq. res = Inr seq \<and> 0 < seq \<and>
               ks_get (target_of (fl AND kDeleted \<noteq> 0) bs') key =
                 Some \<lparr>version = ver, body = val, flags = fl, sequence = seq\<rparr> \<and>
               ks_get (other_of (fl AND kDeleted \<noteq> 0) bs') key = None"
    using upsert_result [of am bs key ver val fl ns res bs'] run by simp
qed

theorem set_keeps_key_in_at_most_one_store_witness:
  "(\<forall>k. at_most_one scenario_S1 k) \<and>
   (\<forall>k. at_most_one (snd (BothKeyStore_set AssertThrows scenario_S1 ''a'' ''2-bb'' [] 1 None True)) k) \<and>
   BothKeyStore_set AssertThrows scenario_S1 ''a'' ''2-bb'' [] 1 None True =
     (Inr 2,
      \<lparr>liveStore = [],
       deadStore = [(''a'', \<lparr>version = ''2-bb'', body = [], flags = 1, sequence = 2\<rparr>)],
       lastSeq = 2\<rparr>)"
proof -
  have h: "\<forall>k. at_most_one scenario_S1 k"
    by (simp add: at_most_one_def present_def ks_get_def scenario_S1_def)
  have run: "BothKeyStore_set AssertThrows scenario_S1 ''a'' ''2-bb'' [] 1 None True =
     (Inr 2,
      \<lparr>liveStore = [],
       deadStore = [(''a'', \<lparr>version = ''2-bb'', body = [], flags = 1, sequence = 2\<rparr>)],
       lastSeq = 2\<rparr>)"
    by (simp add: scenario_S1_def BothKeyStore_set_def Let_def target_of_def other_of_def
          with_stores_def ks_set_def ks_del_def ks_get_def kDeleted_def)
  show ?thesis
    using h run set_keeps_key_in_at_most_one_store [OF h run] by simp
qed

text \<open>
  C2, as the code has it. For an MVCC update (\<open>replacingSequence = s > 0\<close>) whose conditional
  set in the target sub-store returns 0: when \<open>newSequence\<close> is false and the assertion is
  active, \<open>set\<close> raises \<open>AssertionFailed\<close> and changes nothing; it does not return 0.
  Otherwise it attempts the compare-and-swap delete of the key with sequence \<open>s\<close> in the other
  sub-store; on success it retries an unconditional set in the target and returns the new
  sequence, and on failure it returns 0 and changes nothing.
\<close>

theorem set_mvcc_update_conflict:
  assumes pos: "0 < s"
    and zero: "fst (ks_set (target_of (fl AND kDeleted \<noteq> 0) bs) (lastSeq bs)
                      key ver val fl (Some s) ns) = 0"
  shows "BothKeyStore_set am bs key ver val fl (Some s) ns =
          (if \<not> ns \<and> am = AssertThrows then (Inl AssertionFailed, bs)
           else if fst (ks_del (other_of (fl AND kDeleted \<noteq> 0) bs) key (Some s))
           then (Inr (lastSeq bs + 1),
                 with_stores (fl AND kDeleted \<noteq> 0)
                   (fst (snd (ks_set (target_of (fl AND kDeleted \<noteq> 0) bs) (lastSeq bs)
                                 key ver val fl None True)))
                   (snd (ks_del (other_of (fl AND kDeleted \<noteq> 0) bs) key (Some s)))
                   (lastSeq bs + 1))
           else (Inr 0, bs))"
proof -
  define d where "d = (fl AND kDeleted \<noteq> 0)"
  obtain T' l' where
    first: "ks_set (target_of d bs) (lastSeq bs) key ver val fl (Some s) ns = (0, T', l')"
    using zero unfolding d_def by (metis fst_conv prod_cases3)
  have same: "T' = target_of d bs" "l' = lastSeq bs"
    using ks_set_zero [OF first] by simp_all
  obtain ok Oth' where del: "ks_del (other_of d bs) key (Some s) = (ok, Oth')"
    by (metis surj_pair)
  have unchanged: "\<not> ok \<Longrightarrow> Oth' = other_of d bs"
    using del ks_del_failed [of "other_of d bs" key "Some s" Oth'] by simp
  show ?thesis
    unfolding d_def [symmetric]
    using pos first same del unchanged
    by (cases ok) (simp_all add: BothKeyStore_set_def Let_def d_def [symmetric] Assert_def
          ks_set_upsert with_stores_same)
qed

theorem set_mvcc_update_conflict_witness:
  "(0::nat) < 1 \<and>
   fst (ks_set (target_of ((0::DocumentFlags) AND kDeleted \<noteq> 0) scenario_S2) (lastSeq scenario_S2)
          ''b'' ''2-bb'' ''alive'' 0 (Some 1) True) = 0 \<and>
   BothKeyStore_set AssertThrows scenario_S2 ''b'' ''2-bb'' ''alive'' 0 (Some 1) True =
     (Inr 2,
      \<lparr>liveStore = [(''b'', \<lparr>version = ''2-bb'', body = ''alive'', flags = 0, sequence = 2\<rparr>)],
       deadStore = [],
       lastSeq = 2\<rparr>)"
proof -
  have pos: "(0::nat) < 1" by simp
  have zero: "fst (ks_set (target_of ((0::DocumentFlags) AND kDeleted \<noteq> 0) scenario_S2)
                     (lastSeq scenario_S2) ''b'' ''2-bb'' ''alive'' 0 (Some 1) True) = 0"
    by (simp add: scenario_S2_def target_of_def ks_set_def kDeleted_def)
  show ?thesis
    using pos zero set_mvcc_update_conflict [OF pos zero, of AssertThrows]
    by (simp add: scenario_S2_def target_of_def other_of_def with_stores_def ks_set_def
          ks_del_def kDeleted_def Let_def)
qed

text \<open>
  The claim as stated fails in scenario S2: the key \<open>b\<close> is in the dead store with sequence 1,
  and an MVCC update to a live revision with \<open>replacingSequence = 1\<close> and
  \<open>newSequence = false\<close> finds no record in the live store, so the conditional set returns 0.
  The call then does not return 0: it raises the assertion failure, or, where the assertion
  is compiled out, it moves the record and returns sequence 2.
\<close>

theorem set_mvcc_update_conflict_counterexample:
  "fst (ks_set (liveStore scenario_S2) (lastSeq scenario_S2)
          ''b'' ''2-bb'' ''alive'' 0 (Some 1) False) = 0 \<and>
   fst (BothKeyStore_set AssertThrows scenario_S2 ''b'' ''2-bb'' ''alive'' 0 (Some 1) False)
     = Inl AssertionFailed \<and>
   fst (BothKeyStore_set AssertCompiledOut scenario_S2 ''b'' ''2-bb'' ''alive'' 0 (Some 1) False)
     = Inr 2 \<and>
   fst (BothKeyStore_set AssertThrows scenario_S2 ''b'' ''2-bb'' ''alive'' 0 (Some 1) False)
     \<noteq> Inr 0 \<and>
   fst (BothKeyStore_set AssertCompiledOut scenario_S2 ''b'' ''2-bb'' ''alive'' 0 (Some 1) False)
     \<noteq> Inr 0"
  by (simp add: scenario_S2_def BothKeyStore_set_def Let_def target_of_def other_of_def
        with_stores_def ks_set_def ks_del_def ks_get_def Assert_def kDeleted_def)

text \<open>
  C7. For sub-stores that report 0 (no expiration) or a positive time, \<open>nextExpiration\<close>
  returns 0 iff both report 0; otherwise it returns the minimum of the nonzero values among
  the two results.
\<close>

theorem nextExpiration_minimum_of_nonzero:
  assumes "0 \<le> lx" and "0 \<le> dx"
  shows "(nextExpiration lx dx = 0) = (lx = 0 \<and> dx = 0) \<and>
         nextExpiration lx dx = (if lx = 0 \<and> dx = 0 then 0 else Min ({lx, dx} - {0}))"
  using nextExpiration_zero [OF assms] nextExpiration_Min [OF assms] by simp

theorem nextExpiration_minimum_of_nonzero_witness:
  "(0 :: 64 word) \<le> 0 \<and> (0 :: 64 word) \<le> 1700000000000 \<and>
   nextExpiration (0 :: 64 word) 1700000000000 = 1700000000000 \<and>
   (0 :: int) \<le> 1800000000000 \<and> (0 :: int) \<le> 1700000000000 \<and>
   nextExpiration (1800000000000 :: int) 1700000000000 = 1700000000000 \<and>
   nextExpiration (0 :: int) 0 = 0"
proof -
  have w: "(0 :: 64 word) \<le> 0" "(0 :: 64 word) \<le> 1700000000000" by simp_all
  have i: "(0 :: int) \<le> 1800000000000" "(0 :: int) \<le> 1700000000000" "(0 :: int) \<le> 0"
    by simp_all
  show ?thesis
    using nextExpiration_minimum_of_nonzero [OF w]
      nextExpiration_minimum_of_nonzero [OF i(1) i(2)]
      nextExpiration_minimum_of_nonzero [OF i(3) i(3)]
    by simp
qed

text \<open>
  C4, at scenario S4 enumerated with deleted records included. By sequence in descending
  order, the first three calls of \<open>next()\<close> yield d, c and b; the fourth call, made after
  the dead cursor is exhausted, returns true with \<open>_current\<close> null instead of the live
  record a, so reading the key dereferences null; the fifth call dereferences the dead
  cursor that was reset. By key in ascending order the four records come out as a, b, c, d
  and the fifth call returns false, and an unsorted request is enumerated as the ascending
  one.
\<close>

theorem merged_enumerator_descending_S4:
  "key_after 1 S4_descending_by_sequence = Inr (True, Inr ''d'') \<and>
   key_after 2 S4_descending_by_sequence = Inr (True, Inr ''c'') \<and>
   key_after 3 S4_descending_by_sequence = Inr (True, Inr ''b'') \<and>
   key_after 4 S4_descending_by_sequence = Inr (True, Inl NullDereference) \<and>
   next_times 5 S4_descending_by_sequence = Inl NullDereference \<and>
   key_after 1 S4_ascending_by_key = Inr (True, Inr ''a'') \<and>
   key_after 2 S4_ascending_by_key = Inr (True, Inr ''b'') \<and>
   key_after 3 S4_ascending_by_key = Inr (True, Inr ''c'') \<and>
   key_after 4 S4_ascending_by_key = Inr (True, Inr ''d'') \<and>
   map_sum id fst (next_times 5 S4_ascending_by_key) = Inr False \<and>
   newEnumeratorImpl scenario_S4 False 0 \<lparr>includeDeleted = True, sortOption = kUnsorted\<rparr> =
     Merged S4_ascending_by_key"
  by code_simp


section \<open>Properties of Database\<close>

text \<open>
  C10, at a database whose handle cache is empty. \<open>closeKeyStore\<close> returns without an
  error and closes no handle, but the cache then holds an entry for the name, with a null
  handle; \<open>openKVS\<close> of that name afterwards finds the entry and returns the null handle
  without opening the key-store.
\<close>

theorem closeKeyStore_inserts_null_entry:
  "map_of (kvHandles empty_cache_Database) ''x'' = None \<and>
   closeKeyStore FDB_RESULT_SUCCESS empty_cache_Database ''x'' =
     (Inr (), \<lparr>kvHandles = [(''x'', None)], fdb_closed = [], fdb_opened = []\<rparr>) \<and>
   openKVS FDB_RESULT_SUCCESS 7
       \<lparr>kvHandles = [(''x'', None)], fdb_closed = [], fdb_opened = []\<rparr> ''x'' =
     (Inr None, \<lparr>kvHandles = [(''x'', None)], fdb_closed = [], fdb_opened = []\<rparr>)"
  by (simp add: empty_cache_Database_def closeKeyStore_def kvHandles_subscript_def openKVS_def)


section \<open>Properties of SQLiteQueryEnumerator\<close>

text \<open>
  C5, at a row of 33 columns in which column 31 is the only SQL NULL. The bitmap written
  after the row's column array has all of the bits 31 to 63 set: bit 32 is 1 although column
  32 is not NULL.
\<close>

theorem encodeRow_bitmap_null_at_31:
  "length row_null_at_31 = 33 \<and>
   row_null_at_31 ! 31 = SQLITE_NULL \<and>
   row_null_at_31 ! 32 = SQLITE_INTEGER 7 \<and>
   encodeRow plain_query 33 row_null_at_31 =
     Inr [VArray (replicate 31 (VInt 7) @ [VNull, VInt 7]), VUInt 0xFFFFFFFF80000000] \<and>
   bit (0xFFFFFFFF80000000 :: 64 word) 32"
  by code_simp


lemma bind_bindings:
  "bind st sqlKey b = Inr st' \<Longrightarrow>
     map_of (stmt_bindings st') k = (if k = sqlKey then Some b else map_of (stmt_bindings st) k)"
  by (auto simp: bind_def update_conv' split: if_splits)

lemma bind_entry_unbound:
  "bind_entry kv e = Inr e' \<Longrightarrow>
     unboundParameters e' = removeAll (fst kv) (unboundParameters e)"
  by (cases "snd kv")
     (auto simp: bind_entry_def Let_def map_sum_def split: option.splits sum.splits)

lemma bind_entry_statement:
  assumes "bind_entry kv e = Inr e'"
  shows "\<exists>st st'. statement e = Some st \<and> statement e' = Some st' \<and>
           (\<forall>k. k \<noteq> ''$_'' @ fst kv \<or> snd kv = VNull \<longrightarrow>
                  map_of (stmt_bindings st') k = map_of (stmt_bindings st) k)"
  using assms
  by (cases "snd kv")
     (auto simp: bind_entry_def Let_def map_sum_def bind_bindings
           split: option.splits sum.splits)

lemma bind_entries_unbound:
  "bind_entries kvs e = Inr e' \<Longrightarrow>
     set (unboundParameters e') = set (unboundParameters e) - fst ` set kvs"
proof (induction kvs arbitrary: e)
  case Nil
  then show ?case by simp
next
  case (Cons kv kvs)
  then obtain e1 where step: "bind_entry kv e = Inr e1" and rest: "bind_entries kvs e1 = Inr e'"
    by (auto split: sum.splits)
  show ?case
    using Cons.IH [OF rest] bind_entry_unbound [OF step] by auto
qed

lemma bind_entries_bindings:
  assumes "bind_entries kvs e = Inr e'"
    and "statement e = Some st"
    and "\<forall>v. (key, v) \<in> set kvs \<longrightarrow> v = VNull"
  shows "\<exists>st'. statement e' = Some st' \<and>
           map_of (stmt_bindings st') (''$_'' @ key) = map_of (stmt_bindings st) (''$_'' @ key)"
  using assms
proof (induction kvs arbitrary: e st)
  case Nil
  then show ?case by simp
next
  case (Cons kv kvs)
  then obtain e1 where step: "bind_entry kv e = Inr e1" and rest: "bind_entries kvs e1 = Inr e'"
    by (auto split: sum.splits)
  obtain st1 where st1: "statement e1 = Some st1"
    and same: "\<forall>k. k \<noteq> ''$_'' @ fst kv \<or> snd kv = VNull \<longrightarrow>
                  map_of (stmt_bindings st1) k = map_of (stmt_bindings st) k"
    using bind_entry_statement [OF step] Cons.prems(2) by auto
  have "fst kv = key \<longrightarrow> snd kv = VNull"
    using Cons.prems(3) by (cases kv) auto
  then have first: "map_of (stmt_bindings st1) (''$_'' @ key) = map_of (stmt_bindings st) (''$_'' @ key)"
    using same by auto
  have "\<forall>v. (key, v) \<in> set kvs \<longrightarrow> v = VNull"
    using Cons.prems(3) by auto
  from Cons.IH [OF rest st1 this] first show ?case by auto
qed

text \<open>
  C9. When \<open>bindParameters\<close> completes on a dictionary in which a key has the value null,
  the key is no longer among the unbound parameters, and what is bound to the statement's
  parameter \<open>$_key\<close> is what was bound before the call: nothing, after the constructor's
  \<open>clearBindings\<close>, so that the parameter keeps the value \<open>MISSING\<close>.
\<close>

theorem bindParameters_null_value:
  assumes run: "bindParameters (VDict entries) e = Inr e'"
    and keys: "distinct (map fst entries)"
    and null: "(key, VNull) \<in> set entries"
  shows "key \<notin> set (unboundParameters e') \<and>
         (\<exists>st st'. statement e = Some st \<and> statement e' = Some st' \<and>
            map_of (stmt_bindings st') (''$_'' @ key) = map_of (stmt_bindings st) (''$_'' @ key))"
proof -
  have run': "bind_entries entries e = Inr e'"
    using run by (simp add: bindParameters_def)
  have "key \<in> fst ` set entries"
    using null by force
  then have unbound: "key \<notin> set (unboundParameters e')"
    using bind_entries_unbound [OF run'] by simp
  obtain kv kvs where "entries = kv # kvs"
    using null by (cases entries) auto
  then obtain st where st: "statement e = Some st"
    using run' bind_entry_statement [of kv e] by (auto split: sum.splits)
  have "\<forall>v. (key, v) \<in> set entries \<longrightarrow> v = VNull"
    using keys null by (meson eq_key_imp_eq_value)
  from bind_entries_bindings [OF run' st this] unbound st show ?thesis by auto
qed


theorem bindParameters_null_value_witness:
  "bindParameters (VDict [(''n'', VNull)]) param_enumerator =
     Inr (param_enumerator\<lparr>unboundParameters := []\<rparr>) \<and>
   distinct (map fst [(''n'', VNull)]) \<and>
   (''n'', VNull) \<in> set [(''n'', VNull)] \<and>
   ''n'' \<in> set (unboundParameters param_enumerator) \<and>
   ''n'' \<notin> set (unboundParameters (param_enumerator\<lparr>unboundParameters := []\<rparr>)) \<and>
   map_option (\<lambda>st. map_of (stmt_bindings st) ''$_n'')
     (statement (param_enumerator\<lparr>unboundParameters := []\<rparr>)) = Some None"
proof -
  have run: "bindParameters (VDict [(''n'', VNull)]) param_enumerator =
     Inr (param_enumerator\<lparr>unboundParameters := []\<rparr>)"
    by (simp add: bindParameters_def bind_entry_def param_enumerator_def Let_def)
  have keys: "distinct (map fst [(''n'', VNull)])" by simp
  have null: "(''n'', VNull) \<in> set [(''n'', VNull)]" by simp
  show ?thesis
    using run bindParameters_null_value [OF run keys null]
    by (simp add: param_enumerator_def)
qed

















text \<open>
  When either side holds no recording (a query that yielded no rows records none), the
  comparison is called through a null pointer.
\<close>

lemma hasEqualContents_without_recording:
  "own_playback e = None \<or> other_playback n = None \<Longrightarrow>
     hasEqualContents e n = Inl NullDereference"
  by (auto simp: hasEqualContents_def split: option.splits)






lemma to_int64_id: "- (2 ^ 63) \<le> x \<Longrightarrow> x < 2 ^ 63 \<Longrightarrow> to_int64 x = x"
  by (simp add: to_int64_def signed_take_bit_int_eq_self)



text \<open>
  From \<open>2^62\<close> on the doubling of the row index in the playback's \<open>seek\<close> wraps around:
  \<open>seek(2^62)\<close> on the same enumerator finds the wrapped index within the recording and
  returns normally, with the current row set to \<open>2^62\<close>.
\<close>

lemma three_row_seek_wraps:
  "enumerator_seek three_row_query (2 ^ 62) three_row_at_0 =
     (Inr (), three_row_at_0\<lparr>curRow := 2 ^ 62\<rparr>)"
proof -
  have a: "to_int64 4611686018427387904 = 4611686018427387904"
    by (simp add: to_int64_id)
  have b: "to_int64 9223372036854775808 = - 9223372036854775808"
    by (simp add: to_int64_def signed_take_bit_eq_take_bit_shift take_bit_eq_mod)
  have c: "to_uint32 (- 9223372036854775808) = 0"
    by (simp add: to_uint32_def take_bit_eq_mod)
  show ?thesis
    by (simp add: enumerator_seek_def three_row_at_0_def three_row_fresh_def
          three_row_recording_def playback_seek_def a b c Let_def)
qed











section \<open>Properties of DBActor\<close>













end
